theory Spec2Isabelle
  imports Main "HOL-Library.Word" "HOL-Library.Sublist"
begin

section \<open>JavaScript strings\<close>

text \<open>
  A JavaScript string is a sequence of 16-bit code units, and \<open>length\<close>,
  \<open>substring\<close>, \<open>split\<close> and \<open>trim\<close> all work on code units. The
  function \<open>js\<close> embeds an ASCII literal.
\<close>

type_synonym js_string = "16 word list"

definition js :: "string \<Rightarrow> js_string" where
  "js s = map (\<lambda>c. of_nat (of_char c)) s"

text \<open>
  \<open>String.prototype.trim\<close> strips the ECMAScript WhiteSpace and LineTerminator
  code points: TAB, LF, VT, FF, CR, SP, NBSP, U+1680, U+2000..U+200A, LS, PS, U+202F,
  U+205F, U+3000 and the BOM U+FEFF.
\<close>

definition isWhiteSpace :: "16 word \<Rightarrow> bool" where
  "isWhiteSpace c = (c \<in> set [0x0009, 0x000A, 0x000B, 0x000C, 0x000D, 0x0020, 0x00A0,
     0x1680, 0x2000, 0x2001, 0x2002, 0x2003, 0x2004, 0x2005, 0x2006, 0x2007, 0x2008,
     0x2009, 0x200A, 0x2028, 0x2029, 0x202F, 0x205F, 0x3000, 0xFEFF])"

definition trim :: "js_string \<Rightarrow> js_string" where
  "trim s = rev (dropWhile isWhiteSpace (rev (dropWhile isWhiteSpace s)))"

text \<open>\<open>s.replace(/c/g, r)\<close> for a single code unit \<open>c\<close>.\<close>

definition replace_all :: "16 word \<Rightarrow> js_string \<Rightarrow> js_string \<Rightarrow> js_string" where
  "replace_all c r s = concat (map (\<lambda>x. if x = c then r else [x]) s)"

text \<open>
  \<open>s.split(c)\<close> for a single code unit \<open>c\<close>: the pieces between the
  occurrences of \<open>c\<close>; the result always has at least one piece
  (\<open>"".split(".")\<close> is \<open>[""]\<close>).
\<close>

fun split :: "16 word \<Rightarrow> js_string \<Rightarrow> js_string list" where
  "split c [] = [[]]"
| "split c (x # xs) =
     (if x = c then [] # split c xs
      else (case split c xs of
              [] \<Rightarrow> [[x]]
            | p # ps \<Rightarrow> (x # p) # ps))"

section \<open>The data model\<close>

text \<open>
  What the lexer hands over: the tag of an open-tag event, and the parser object's
  position counters, which can be read while an event fires.
\<close>

record Tag =
  tag_name :: js_string
  attributes :: "js_string \<rightharpoonup> js_string"

record SAXParser =
  line :: int
  column :: int
  position :: int
  startTagPosition :: int

text \<open>
  The element objects live in a store, a list indexed by address, since the builder
  mutates an element through the reference on the \<open>delegates\<close> stack while its
  parent holds the same reference in \<open>children\<close>. A child node is a text, CDATA
  or comment node (immutable, held by value) or a reference to an element.
\<close>

datatype XmlNodeBase =
    XmlElementRef nat
  | XmlTextNode js_string
  | XmlCDataNode js_string
  | XmlCommentNode js_string

text \<open>
  \<open>attr\<close> holds the own properties of the attributes object, strings by the
  declared type \<open>Record<string, string>\<close>; a read \<open>attr[name]\<close> also
  sees what the object inherits (\<open>get_property\<close> below). \<open>doctype\<close> is
  \<open>None\<close> on a plain \<open>XmlElement\<close> and \<open>Some d\<close> on an
  \<open>XmlDocument\<close>, the subclass that adds the field \<open>doctype\<close> and the
  methods \<open>_doctype\<close> and its own \<open>_opentag\<close>.
\<close>

record XmlElement =
  name :: js_string
  attr :: "js_string \<rightharpoonup> js_string"
  val :: js_string
  children :: "XmlNodeBase list"
  firstChild :: "XmlNodeBase option"
  lastChild :: "XmlNodeBase option"
  line :: "int option"
  column :: "int option"
  position :: "int option"
  startTagPosition :: "int option"
  doctype :: "js_string option"

text \<open>
  JavaScript values, as far as the queries meet them. \<open>JSObject n\<close> is the
  object (a function, or the prototype itself for \<open>__proto__\<close>) that
  \<open>Object.prototype\<close> holds under the name \<open>n\<close>.
\<close>

datatype js_value =
    JSUndefined
  | JSNull
  | JSBoolean bool
  | JSNumber int
  | JSString js_string
  | JSObject js_string

datatype js_error =
    NoXmlToParse
  | SaxError js_string
  | TypeError

datatype sax_event =
    OnOpenTag Tag
  | OnCloseTag
  | OnText js_string
  | OnCData js_string
  | OnComment js_string
  | OnDoctype js_string
  | OnError js_string

text \<open>
  The build state: the store of element objects and the module-level array
  \<open>delegates\<close>, whose head \<open>delegates[0]\<close> is the element receiving events.
\<close>

record builder =
  heap :: "XmlElement list"
  delegates :: "nat list"

section \<open>The tree builder\<close>

text \<open>The constructor of \<open>XmlElement\<close>, with its optional parser argument.\<close>

definition new_XmlElement :: "Tag \<Rightarrow> SAXParser option \<Rightarrow> XmlElement" where
  "new_XmlElement tag parser =
     \<lparr> name = tag_name tag,
       attr = attributes tag,
       val = [],
       children = [],
       firstChild = None,
       lastChild = None,
       line = map_option SAXParser.line parser,
       column = map_option SAXParser.column parser,
       position = map_option SAXParser.position parser,
       startTagPosition = map_option SAXParser.startTagPosition parser,
       doctype = None \<rparr>"

definition addChild :: "XmlNodeBase \<Rightarrow> XmlElement \<Rightarrow> XmlElement" where
  "addChild child this =
     this\<lparr> children := children this @ [child],
           firstChild := (if firstChild this = None then Some child else firstChild this),
           lastChild := Some child \<rparr>"

text \<open>
  The methods of \<open>XmlElement\<close> that handle events; \<open>this\<close> is the address of
  the receiver. \<open>_opentag\<close> constructs the child without a parser argument.
\<close>

definition XmlElement_opentag :: "nat \<Rightarrow> Tag \<Rightarrow> builder \<Rightarrow> builder" where
  "XmlElement_opentag this tag st =
     (let child = length (heap st) in
      st\<lparr> heap := (heap st)[this := addChild (XmlElementRef child) (heap st ! this)]
                     @ [new_XmlElement tag None],
          delegates := child # delegates st \<rparr>)"

definition XmlElement_closetag :: "builder \<Rightarrow> builder" where
  "XmlElement_closetag st = st\<lparr> delegates := tl (delegates st) \<rparr>"

definition XmlElement_text :: "nat \<Rightarrow> js_string \<Rightarrow> builder \<Rightarrow> builder" where
  "XmlElement_text this text st =
     st\<lparr> heap := (heap st)[this :=
            addChild (XmlTextNode text) ((heap st ! this)\<lparr> val := val (heap st ! this) @ text \<rparr>)] \<rparr>"

definition XmlElement_cdata :: "nat \<Rightarrow> js_string \<Rightarrow> builder \<Rightarrow> builder" where
  "XmlElement_cdata this cdata st =
     st\<lparr> heap := (heap st)[this :=
            addChild (XmlCDataNode cdata) ((heap st ! this)\<lparr> val := val (heap st ! this) @ cdata \<rparr>)] \<rparr>"

definition XmlElement_comment :: "nat \<Rightarrow> js_string \<Rightarrow> builder \<Rightarrow> builder" where
  "XmlElement_comment this comment st =
     st\<lparr> heap := (heap st)[this := addChild (XmlCommentNode comment) (heap st ! this)] \<rparr>"

text \<open>The two methods \<open>XmlDocument\<close> adds or overrides.\<close>

definition XmlDocument_opentag :: "nat \<Rightarrow> Tag \<Rightarrow> builder \<Rightarrow> builder" where
  "XmlDocument_opentag this tag st =
     (if name (heap st ! this) = []
      then st\<lparr> heap := (heap st)[this :=
                  (heap st ! this)\<lparr> name := tag_name tag, attr := attributes tag \<rparr>] \<rparr>
      else XmlElement_opentag this tag st)"

definition XmlDocument_doctype :: "nat \<Rightarrow> js_string \<Rightarrow> builder \<Rightarrow> builder" where
  "XmlDocument_doctype this d st =
     st\<lparr> heap := (heap st)[this :=
            (heap st ! this)\<lparr> doctype := map_option (\<lambda>x. x @ d) (doctype (heap st ! this)) \<rparr>] \<rparr>"

text \<open>
  The handlers \<open>addParserEvents\<close> installs, as one function of the event. The first
  argument is the parser object as it reads when the event fires. Every handler but
  \<open>ondoctype\<close> goes through \<open>delegates[0]?.\<close> and does nothing on an empty
  stack; \<open>ondoctype\<close> reads \<open>doc._doctype\<close> of \<open>delegates[0]\<close>, a
  TypeError when that is undefined. \<open>_error\<close> throws the lexer's error.
\<close>

fun addParserEvents :: "SAXParser \<Rightarrow> sax_event \<Rightarrow> builder \<Rightarrow> js_error + builder" where
  "addParserEvents parser (OnOpenTag tag) st =
     (case delegates st of
        [] \<Rightarrow> Inr st
      | d # _ \<Rightarrow>
          Inr (if doctype (heap st ! d) \<noteq> None then XmlDocument_opentag d tag st
               else XmlElement_opentag d tag st))"
| "addParserEvents parser OnCloseTag st =
     (case delegates st of
        [] \<Rightarrow> Inr st
      | d # _ \<Rightarrow> Inr (XmlElement_closetag st))"
| "addParserEvents parser (OnText text) st =
     (case delegates st of
        [] \<Rightarrow> Inr st
      | d # _ \<Rightarrow> Inr (XmlElement_text d text st))"
| "addParserEvents parser (OnCData cdata) st =
     (case delegates st of
        [] \<Rightarrow> Inr st
      | d # _ \<Rightarrow> Inr (XmlElement_cdata d cdata st))"
| "addParserEvents parser (OnComment comment) st =
     (case delegates st of
        [] \<Rightarrow> Inr st
      | d # _ \<Rightarrow> Inr (XmlElement_comment d comment st))"
| "addParserEvents parser (OnDoctype d) st =
     (case delegates st of
        [] \<Rightarrow> Inl TypeError
      | doc # _ \<Rightarrow>
          Inr (if doctype (heap st ! doc) \<noteq> None then XmlDocument_doctype doc d st else st))"
| "addParserEvents parser (OnError err) st =
     (case delegates st of
        [] \<Rightarrow> Inr st
      | d # _ \<Rightarrow> Inl (SaxError err))"

text \<open>
  \<open>parser.write(xml)\<close>: the lexer is external, so its run on the input is the list
  of events it fires, each with the parser's counters at that moment. An exception
  thrown by a handler leaves it at once.
\<close>

fun parser_write :: "(SAXParser \<times> sax_event) list \<Rightarrow> builder \<Rightarrow> js_error + builder" where
  "parser_write [] st = Inr st"
| "parser_write ((parser, ev) # evs) st =
     (case addParserEvents parser ev st of
        Inl e \<Rightarrow> Inl e
      | Inr st' \<Rightarrow> parser_write evs st')"

text \<open>
  The constructor of \<open>XmlDocument\<close>. The document object is the first object
  allocated, at address 0. \<open>sax\<close> is the lexer: the events it fires on a given
  input. The field \<open>parser\<close> of the document, set before the run and deleted
  after it, is read by no handler and has no counterpart in the record.
\<close>

definition new_XmlDocument ::
  "(js_string \<Rightarrow> (SAXParser \<times> sax_event) list) \<Rightarrow> js_string \<Rightarrow> js_error + builder" where
  "new_XmlDocument sax xml0 =
     (let this = new_XmlElement \<lparr> tag_name = [], attributes = Map.empty \<rparr> None;
          xml = trim xml0
      in if xml = [] then Inl NoXmlToParse
         else parser_write (sax xml) \<lparr> heap = [this\<lparr> doctype := Some [] \<rparr>], delegates = [0] \<rparr>)"

section \<open>Rendering text, CDATA and comment nodes\<close>

text \<open>
  The formatting options; an absent option (or an absent options object, \<open>None\<close>)
  reads as false in every test the code makes.
\<close>

record XmlStringOptions =
  compressed :: bool
  trimmed :: bool
  preserveWhitespace :: bool
  html :: bool

definition escapeXML :: "js_string \<Rightarrow> js_string" where
  "escapeXML v =
     replace_all 0x22 (js ''&quot;'')
       (replace_all 0x27 (js ''&apos;'')
         (replace_all 0x3E (js ''&gt;'')
           (replace_all 0x3C (js ''&lt;'')
             (replace_all 0x26 (js ''&amp;'') v))))"

text \<open>The ellipsis appended by truncation is the single code unit U+2026.\<close>

definition formatText :: "js_string \<Rightarrow> XmlStringOptions option \<Rightarrow> js_string" where
  "formatText text options =
     (let finalText = text;
          finalText = (if (case options of None \<Rightarrow> False | Some opts \<Rightarrow> trimmed opts)
                          \<and> length text > 25
                       then trim (take 25 finalText) @ [0x2026] else finalText);
          finalText = (if \<not> (case options of None \<Rightarrow> False | Some opts \<Rightarrow> preserveWhitespace opts)
                       then trim finalText else finalText)
      in finalText)"

text \<open>
  \<open>toString\<close> of the three leaf classes, by the class of the node. \<open>toString\<close>
  of an element (the recursive serializer of the tree) is no part of this model: no
  property below depends on it.
\<close>

definition XmlTextNode_toString :: "js_string \<Rightarrow> XmlStringOptions option \<Rightarrow> js_string" where
  "XmlTextNode_toString text options = formatText (escapeXML text) options"

definition XmlCDataNode_toString :: "js_string \<Rightarrow> XmlStringOptions option \<Rightarrow> js_string" where
  "XmlCDataNode_toString cdata options =
     js ''<![CDATA['' @ formatText cdata options @ js '']]>''"

definition XmlCommentNode_toString :: "js_string \<Rightarrow> XmlStringOptions option \<Rightarrow> js_string" where
  "XmlCommentNode_toString comment options =
     js ''<!--'' @ formatText (escapeXML comment) options @ js ''-->''"

section \<open>The query layer\<close>

text \<open>
  The queries read a built tree: the store \<open>h\<close> and the address \<open>this\<close> of
  the receiver. Each \<open>for\<close> loop over \<open>this.children\<close> is a recursion over
  the list; \<open>child.type === "element"\<close> is the case \<open>XmlElementRef\<close>. A found
  element is returned as its address, \<open>undefined\<close> as \<open>None\<close>.
\<close>

fun childNamed_loop :: "XmlElement list \<Rightarrow> XmlNodeBase list \<Rightarrow> js_string \<Rightarrow> nat option" where
  "childNamed_loop h [] nm = None"
| "childNamed_loop h (child # rest) nm =
     (case child of
        XmlElementRef a \<Rightarrow> if name (h ! a) = nm then Some a else childNamed_loop h rest nm
      | _ \<Rightarrow> childNamed_loop h rest nm)"

definition childNamed :: "XmlElement list \<Rightarrow> nat \<Rightarrow> js_string \<Rightarrow> nat option" where
  "childNamed h this nm = childNamed_loop h (children (h ! this)) nm"

fun childrenNamed_loop ::
  "XmlElement list \<Rightarrow> XmlNodeBase list \<Rightarrow> js_string \<Rightarrow> nat list \<Rightarrow> nat list" where
  "childrenNamed_loop h [] nm matches = matches"
| "childrenNamed_loop h (child # rest) nm matches =
     (case child of
        XmlElementRef a \<Rightarrow>
          if name (h ! a) = nm then childrenNamed_loop h rest nm (matches @ [a])
          else childrenNamed_loop h rest nm matches
      | _ \<Rightarrow> childrenNamed_loop h rest nm matches)"

definition childrenNamed :: "XmlElement list \<Rightarrow> nat \<Rightarrow> js_string \<Rightarrow> nat list" where
  "childrenNamed h this nm = childrenNamed_loop h (children (h ! this)) nm []"

text \<open>
  The attributes object is a plain object: the lexer creates it as \<open>{}\<close>, and
  so does the constructor of \<open>XmlDocument\<close>. A read \<open>attr[name]\<close>
  gives the own property when there is one, else what \<open>Object.prototype\<close> holds
  under that name, else undefined.
\<close>

definition Object_prototype :: "js_string list" where
  "Object_prototype =
     map js [''constructor'', ''__defineGetter__'', ''__defineSetter__'', ''hasOwnProperty'',
             ''__lookupGetter__'', ''__lookupSetter__'', ''isPrototypeOf'',
             ''propertyIsEnumerable'', ''toString'', ''valueOf'', ''__proto__'',
             ''toLocaleString'']"

definition get_property :: "(js_string \<rightharpoonup> js_string) \<Rightarrow> js_string \<Rightarrow> js_value" where
  "get_property obj nm =
     (case obj nm of
        Some v \<Rightarrow> JSString v
      | None \<Rightarrow> if nm \<in> set Object_prototype then JSObject nm else JSUndefined)"

text \<open>The truth value of a JavaScript value (no NaN among the numbers here).\<close>

fun ToBoolean :: "js_value \<Rightarrow> bool" where
  "ToBoolean JSUndefined = False"
| "ToBoolean JSNull = False"
| "ToBoolean (JSBoolean b) = b"
| "ToBoolean (JSNumber n) = (n \<noteq> 0)"
| "ToBoolean (JSString s) = (s \<noteq> [])"
| "ToBoolean (JSObject n) = True"

fun childWithAttribute_loop ::
  "XmlElement list \<Rightarrow> XmlNodeBase list \<Rightarrow> js_string \<Rightarrow> js_string option \<Rightarrow> nat option" where
  "childWithAttribute_loop h [] nm value = None"
| "childWithAttribute_loop h (child # rest) nm value =
     (case child of
        XmlElementRef a \<Rightarrow>
          if (value \<noteq> None \<and> get_property (attr (h ! a)) nm = JSString (the value))
             \<or> (value = None \<and> ToBoolean (get_property (attr (h ! a)) nm))
          then Some a
          else childWithAttribute_loop h rest nm value
      | _ \<Rightarrow> childWithAttribute_loop h rest nm value)"

definition childWithAttribute ::
  "XmlElement list \<Rightarrow> nat \<Rightarrow> js_string \<Rightarrow> js_string option \<Rightarrow> nat option" where
  "childWithAttribute h this nm value = childWithAttribute_loop h (children (h ! this)) nm value"

text \<open>
  \<open>descendantWithPath\<close>: the loop over the components with the variable
  \<open>descendant\<close>, which is an element or undefined.
\<close>

fun descendantWithPath_loop ::
  "XmlElement list \<Rightarrow> nat option \<Rightarrow> js_string list \<Rightarrow> nat option" where
  "descendantWithPath_loop h descendant [] = descendant"
| "descendantWithPath_loop h descendant (component # components) =
     (case descendant of
        Some d \<Rightarrow> descendantWithPath_loop h (childNamed h d component) components
      | None \<Rightarrow> None)"

definition descendantWithPath :: "XmlElement list \<Rightarrow> nat \<Rightarrow> js_string \<Rightarrow> nat option" where
  "descendantWithPath h this path = descendantWithPath_loop h (Some this) (split 0x2E path)"

definition valueWithPath :: "XmlElement list \<Rightarrow> nat \<Rightarrow> js_string \<Rightarrow> js_value" where
  "valueWithPath h this path =
     (let components = split 0x40 path;
          descendant = descendantWithPath h this (components ! 0)
      in case descendant of
           Some d \<Rightarrow> if length components > 1 then get_property (attr (h ! d)) (components ! 1)
                     else JSString (val (h ! d))
         | None \<Rightarrow> JSUndefined)"

text \<open>
  \<open>eachChild\<close>. The iterator is a callback with effects of its own: it takes the
  child, the index, the \<open>children\<close> array and its state, and returns a JavaScript
  value and its new state. It is taken not to modify the tree it is shown. The loop
  runs over the array with the index \<open>i\<close> counted along.
\<close>

fun eachChild_loop ::
  "(nat \<Rightarrow> nat \<Rightarrow> XmlNodeBase list \<Rightarrow> 's \<Rightarrow> js_value \<times> 's) \<Rightarrow> XmlNodeBase list \<Rightarrow>
   nat \<Rightarrow> XmlNodeBase list \<Rightarrow> 's \<Rightarrow> 's" where
  "eachChild_loop iterator array i [] s = s"
| "eachChild_loop iterator array i (child # rest) s =
     (case child of
        XmlElementRef a \<Rightarrow>
          (case iterator a i array s of
             (r, s') \<Rightarrow> if r = JSBoolean False then s'
                        else eachChild_loop iterator array (Suc i) rest s')
      | _ \<Rightarrow> eachChild_loop iterator array (Suc i) rest s)"

definition eachChild ::
  "XmlElement list \<Rightarrow> nat \<Rightarrow> (nat \<Rightarrow> nat \<Rightarrow> XmlNodeBase list \<Rightarrow> 's \<Rightarrow> js_value \<times> 's) \<Rightarrow> 's \<Rightarrow> 's" where
  "eachChild h this iterator s =
     eachChild_loop iterator (children (h ! this)) 0 (children (h ! this)) s"

section \<open>The specification's side\<close>

text \<open>
  The specification's side of claim C1: the content a child contributes to the value
  of its parent (the text of a text node, the content of a CDATA node, nothing for a
  comment or a child element), and the concatenation over the direct children.
\<close>

fun spec_own_text :: "XmlNodeBase \<Rightarrow> js_string" where
  "spec_own_text (XmlTextNode text) = text"
| "spec_own_text (XmlCDataNode cdata) = cdata"
| "spec_own_text (XmlCommentNode comment) = []"
| "spec_own_text (XmlElementRef a) = []"

definition spec_direct_text :: "XmlNodeBase list \<Rightarrow> js_string" where
  "spec_direct_text cs = concat (map spec_own_text cs)"

definition val_is_direct_text :: "XmlElement \<Rightarrow> bool" where
  "val_is_direct_text e = (val e = spec_direct_text (children e))"

text \<open>
  A store without dangling references: every element reference among the children of
  an element, and every entry of the stack, is the address of an element of the store.
\<close>

definition refs_in_range :: "builder \<Rightarrow> bool" where
  "refs_in_range st =
     ((\<forall>i < length (heap st). \<forall>a. XmlElementRef a \<in> set (children (heap st ! i))
          \<longrightarrow> a < length (heap st))
      \<and> (\<forall>d \<in> set (delegates st). d < length (heap st)))"

text \<open>An element none of whose four position fields is set.\<close>

definition position_null :: "XmlElement \<Rightarrow> bool" where
  "position_null e =
     (line e = None \<and> column e = None \<and> position e = None \<and> startTagPosition e = None)"



text \<open>
  The specification's side of claim C10: the element children of an array, each with
  its index, in order; and a visit of such a list that calls the iterator on each
  entry and stops after the call that returns the boolean false.
\<close>

definition spec_element_children :: "XmlNodeBase list \<Rightarrow> (nat \<times> nat) list" where
  "spec_element_children cs =
     concat (map (\<lambda>(c, i). case c of XmlElementRef a \<Rightarrow> [(a, i)] | _ \<Rightarrow> [])
                 (zip cs [0..<length cs]))"

fun spec_visit ::
  "(nat \<Rightarrow> nat \<Rightarrow> XmlNodeBase list \<Rightarrow> 's \<Rightarrow> js_value \<times> 's) \<Rightarrow> XmlNodeBase list \<Rightarrow>
   (nat \<times> nat) list \<Rightarrow> 's \<Rightarrow> 's" where
  "spec_visit iterator array [] s = s"
| "spec_visit iterator array ((a, i) # rest) s =
     (case iterator a i array s of
        (r, s') \<Rightarrow> if r = JSBoolean False then s' else spec_visit iterator array rest s')"

section \<open>Example inputs\<close>

text \<open>
  Documents and the events the lexer fires on them, with the parser's counters
  (line, column, position, startTagPosition) at each event.
\<close>

definition counters :: "int \<Rightarrow> int \<Rightarrow> int \<Rightarrow> int \<Rightarrow> SAXParser" where
  "counters l c p s =
     \<lparr> SAXParser.line = l, SAXParser.column = c, SAXParser.position = p,
       SAXParser.startTagPosition = s \<rparr>"

definition mixed_xml :: js_string where
  "mixed_xml = js ''<hello>(<![CDATA[<world>]]>)<b>x</b><!--c--></hello>''"

definition mixed_events :: "(SAXParser \<times> sax_event) list" where
  "mixed_events =
     [(counters 0 7 7 1, OnOpenTag \<lparr> tag_name = js ''hello'', attributes = Map.empty \<rparr>),
      (counters 0 17 17 9, OnText (js ''('')),
      (counters 0 27 27 9, OnCData (js ''<world>'')),
      (counters 0 31 31 29, OnText (js '')'')),
      (counters 0 31 31 29, OnOpenTag \<lparr> tag_name = js ''b'', attributes = Map.empty \<rparr>),
      (counters 0 36 36 33, OnText (js ''x'')),
      (counters 0 36 36 33, OnCloseTag),
      (counters 0 44 44 37, OnComment (js ''c'')),
      (counters 0 52 52 45, OnCloseTag)]"

text \<open>The document of the test \<open>tag locations\<close> of \<open>test/basic.js\<close>.\<close>

definition books_xml :: js_string where
  "books_xml = js ''<books><book title=\"Twilight\"/></books>''"

definition books_events :: "(SAXParser \<times> sax_event) list" where
  "books_events =
     [(counters 0 7 7 1, OnOpenTag \<lparr> tag_name = js ''books'', attributes = Map.empty \<rparr>),
      (counters 0 31 31 8,
         OnOpenTag \<lparr> tag_name = js ''book'', attributes = [js ''title'' \<mapsto> js ''Twilight''] \<rparr>),
      (counters 0 31 31 8, OnCloseTag),
      (counters 0 39 39 32, OnCloseTag)]"

text \<open>Event streams that are not balanced, and one with an error event.\<close>

definition extra_close_xml :: js_string where
  "extra_close_xml = js ''<a></a></a>''"

definition extra_close_events :: "(SAXParser \<times> sax_event) list" where
  "extra_close_events =
     [(counters 0 3 3 1, OnOpenTag \<lparr> tag_name = js ''a'', attributes = Map.empty \<rparr>),
      (counters 0 7 7 4, OnCloseTag),
      (counters 0 11 11 8, OnCloseTag)]"

definition unclosed_xml :: js_string where
  "unclosed_xml = js ''<a><b>''"

definition unclosed_events :: "(SAXParser \<times> sax_event) list" where
  "unclosed_events =
     [(counters 0 3 3 1, OnOpenTag \<lparr> tag_name = js ''a'', attributes = Map.empty \<rparr>),
      (counters 0 6 6 4, OnOpenTag \<lparr> tag_name = js ''b'', attributes = Map.empty \<rparr>)]"

definition mismatched_xml :: js_string where
  "mismatched_xml = js ''<hello><unclosed-tag></hello>''"

definition mismatched_events :: "(SAXParser \<times> sax_event) list" where
  "mismatched_events =
     [(counters 0 7 7 1, OnOpenTag \<lparr> tag_name = js ''hello'', attributes = Map.empty \<rparr>),
      (counters 0 21 21 8, OnOpenTag \<lparr> tag_name = js ''unclosed-tag'', attributes = Map.empty \<rparr>),
      (counters 0 29 29 22,
         OnError (js ''Unexpected close tag'' @ [0x0A] @ js ''Line: 0'' @ [0x0A]
                  @ js ''Column: 29'' @ [0x0A] @ js ''Char: >''))]"

text \<open>Contents of leaf nodes, and the options with \<open>trimmed\<close> alone set.\<close>

definition ampersands :: js_string where
  "ampersands = js ''&&&&&&''"

definition trimmed_on :: XmlStringOptions where
  "trimmed_on = \<lparr> compressed = False, trimmed = True, preserveWhitespace = False, html = False \<rparr>"

definition long_comment :: js_string where
  "long_comment = js '' a comment of more than 25 code units ''"

definition long_cdata :: js_string where
  "long_cdata = js ''<world> & more than 25 code units''"

text \<open>
  A document whose first \<open>book\<close> has an empty \<open>title\<close>, with text between
  the two \<open>book\<close> elements; and the store of the document built from it.
\<close>

definition titles_xml :: js_string where
  "titles_xml = js ''<books><book title=\"\"/>and<book title=\"Twister\"/></books>''"

definition titles_events :: "(SAXParser \<times> sax_event) list" where
  "titles_events =
     [(counters 0 7 7 1, OnOpenTag \<lparr> tag_name = js ''books'', attributes = Map.empty \<rparr>),
      (counters 0 23 23 8,
         OnOpenTag \<lparr> tag_name = js ''book'', attributes = [js ''title'' \<mapsto> []] \<rparr>),
      (counters 0 23 23 8, OnCloseTag),
      (counters 0 49 49 27, OnText (js ''and'')),
      (counters 0 49 49 27,
         OnOpenTag \<lparr> tag_name = js ''book'', attributes = [js ''title'' \<mapsto> js ''Twister''] \<rparr>),
      (counters 0 49 49 27, OnCloseTag),
      (counters 0 57 57 50, OnCloseTag)]"

definition titles_heap :: "XmlElement list" where
  "titles_heap = heap (projr (new_XmlDocument (\<lambda>_. titles_events) titles_xml))"

text \<open>The example of the README for \<open>descendantWithPath\<close> and \<open>valueWithPath\<close>.\<close>

definition martin_xml :: js_string where
  "martin_xml =
     js ''<book><author><name isProper=\"true\">George R. R. Martin</name></author></book>''"

definition martin_events :: "(SAXParser \<times> sax_event) list" where
  "martin_events =
     [(counters 0 6 6 1, OnOpenTag \<lparr> tag_name = js ''book'', attributes = Map.empty \<rparr>),
      (counters 0 14 14 7, OnOpenTag \<lparr> tag_name = js ''author'', attributes = Map.empty \<rparr>),
      (counters 0 36 36 15,
         OnOpenTag \<lparr> tag_name = js ''name'', attributes = [js ''isProper'' \<mapsto> js ''true''] \<rparr>),
      (counters 0 62 62 56, OnText (js ''George R. R. Martin'')),
      (counters 0 62 62 56, OnCloseTag),
      (counters 0 71 71 63, OnCloseTag),
      (counters 0 78 78 72, OnCloseTag)]"

definition martin_heap :: "XmlElement list" where
  "martin_heap = heap (projr (new_XmlDocument (\<lambda>_. martin_events) martin_xml))"

text \<open>An iterator that records the index of each call and returns the number 0.\<close>

definition record_index :: "nat \<Rightarrow> nat \<Rightarrow> XmlNodeBase list \<Rightarrow> nat list \<Rightarrow> js_value \<times> nat list" where
  "record_index child i array s = (JSNumber 0, s @ [i])"

text \<open>An iterator that records the index of each call and returns false.\<close>

definition record_index_stop :: "nat \<Rightarrow> nat \<Rightarrow> XmlNodeBase list \<Rightarrow> nat list \<Rightarrow> js_value \<times> nat list" where
  "record_index_stop child i array s = (JSBoolean False, s @ [i])"

section \<open>Evaluation lemmas\<close>

lemma js_simps: "js [] = []" "js (c # s) = of_nat (of_char c) # js s"
  by (simp_all add: js_def)

lemma js_append: "js a @ js b = js (a @ b)"
  by (simp add: js_def)

lemmas builder_eval =
  new_XmlDocument_def Let_def XmlDocument_opentag_def XmlElement_opentag_def
  XmlElement_text_def XmlElement_cdata_def XmlElement_comment_def XmlElement_closetag_def
  XmlDocument_doctype_def new_XmlElement_def addChild_def

lemma replace_all_simps:
  "replace_all c r [] = []"
  "replace_all c r (x # xs) = (if x = c then r else [x]) @ replace_all c r xs"
  by (simp_all add: replace_all_def)

lemma mixed_xml_trim: "trim mixed_xml = mixed_xml" "mixed_xml \<noteq> []"
  by (simp_all add: trim_def mixed_xml_def js_simps isWhiteSpace_def)

lemma books_xml_trim: "trim books_xml = books_xml" "books_xml \<noteq> []"
  by (simp_all add: trim_def books_xml_def js_simps isWhiteSpace_def)

lemma extra_close_xml_trim: "trim extra_close_xml = extra_close_xml" "extra_close_xml \<noteq> []"
  by (simp_all add: trim_def extra_close_xml_def js_simps isWhiteSpace_def)

lemma unclosed_xml_trim: "trim unclosed_xml = unclosed_xml" "unclosed_xml \<noteq> []"
  by (simp_all add: trim_def unclosed_xml_def js_simps isWhiteSpace_def)

lemma mismatched_xml_trim: "trim mismatched_xml = mismatched_xml" "mismatched_xml \<noteq> []"
  by (simp_all add: trim_def mismatched_xml_def js_simps isWhiteSpace_def)

lemma mixed_built:
  "new_XmlDocument (\<lambda>_. mixed_events) mixed_xml
   = Inr \<lparr> heap = [
        \<lparr> name = js ''hello'', attr = Map.empty, val = js ''(<world>)'',
          children = [XmlTextNode (js ''(''), XmlCDataNode (js ''<world>''),
                      XmlTextNode (js '')''), XmlElementRef 1, XmlCommentNode (js ''c'')],
          firstChild = Some (XmlTextNode (js ''('')),
          lastChild = Some (XmlCommentNode (js ''c'')),
          line = None, column = None, position = None, startTagPosition = None,
          doctype = Some [] \<rparr>,
        \<lparr> name = js ''b'', attr = Map.empty, val = js ''x'',
          children = [XmlTextNode (js ''x'')],
          firstChild = Some (XmlTextNode (js ''x'')),
          lastChild = Some (XmlTextNode (js ''x'')),
          line = None, column = None, position = None, startTagPosition = None,
          doctype = None \<rparr>],
      delegates = [] \<rparr>"
  by (simp add: builder_eval mixed_xml_trim mixed_events_def js_simps)

lemma books_built:
  "new_XmlDocument (\<lambda>_. books_events) books_xml
   = Inr \<lparr> heap = [
        \<lparr> name = js ''books'', attr = Map.empty, val = [],
          children = [XmlElementRef 1],
          firstChild = Some (XmlElementRef 1), lastChild = Some (XmlElementRef 1),
          line = None, column = None, position = None, startTagPosition = None,
          doctype = Some [] \<rparr>,
        \<lparr> name = js ''book'', attr = [js ''title'' \<mapsto> js ''Twilight''], val = [],
          children = [], firstChild = None, lastChild = None,
          line = None, column = None, position = None, startTagPosition = None,
          doctype = None \<rparr>],
      delegates = [] \<rparr>"
  by (simp add: builder_eval books_xml_trim books_events_def js_simps)

lemma titles_xml_trim: "trim titles_xml = titles_xml" "titles_xml \<noteq> []"
  by (simp_all add: trim_def titles_xml_def js_simps isWhiteSpace_def)

lemma martin_xml_trim: "trim martin_xml = martin_xml" "martin_xml \<noteq> []"
  by (simp_all add: trim_def martin_xml_def js_simps isWhiteSpace_def)

lemma titles_built:
  "titles_heap = [
        \<lparr> name = js ''books'', attr = Map.empty, val = js ''and'',
          children = [XmlElementRef 1, XmlTextNode (js ''and''), XmlElementRef 2],
          firstChild = Some (XmlElementRef 1), lastChild = Some (XmlElementRef 2),
          line = None, column = None, position = None, startTagPosition = None,
          doctype = Some [] \<rparr>,
        \<lparr> name = js ''book'', attr = [js ''title'' \<mapsto> []], val = [],
          children = [], firstChild = None, lastChild = None,
          line = None, column = None, position = None, startTagPosition = None,
          doctype = None \<rparr>,
        \<lparr> name = js ''book'', attr = [js ''title'' \<mapsto> js ''Twister''], val = [],
          children = [], firstChild = None, lastChild = None,
          line = None, column = None, position = None, startTagPosition = None,
          doctype = None \<rparr>]"
  by (simp add: titles_heap_def builder_eval titles_xml_trim titles_events_def js_simps)

lemma martin_built:
  "martin_heap = [
        \<lparr> name = js ''book'', attr = Map.empty, val = [],
          children = [XmlElementRef 1],
          firstChild = Some (XmlElementRef 1), lastChild = Some (XmlElementRef 1),
          line = None, column = None, position = None, startTagPosition = None,
          doctype = Some [] \<rparr>,
        \<lparr> name = js ''author'', attr = Map.empty, val = [],
          children = [XmlElementRef 2],
          firstChild = Some (XmlElementRef 2), lastChild = Some (XmlElementRef 2),
          line = None, column = None, position = None, startTagPosition = None,
          doctype = None \<rparr>,
        \<lparr> name = js ''name'', attr = [js ''isProper'' \<mapsto> js ''true''],
          val = js ''George R. R. Martin'',
          children = [XmlTextNode (js ''George R. R. Martin'')],
          firstChild = Some (XmlTextNode (js ''George R. R. Martin'')),
          lastChild = Some (XmlTextNode (js ''George R. R. Martin'')),
          line = None, column = None, position = None, startTagPosition = None,
          doctype = None \<rparr>]"
  by (simp add: martin_heap_def builder_eval martin_xml_trim martin_events_def js_simps)

section \<open>The store of a built document has no dangling reference\<close>

lemma addParserEvents_refs_in_range:
  assumes "addParserEvents parser ev st = Inr st'" and "refs_in_range st"
  shows "refs_in_range st'"
  using assms
  by (cases ev)
     (auto simp: refs_in_range_def XmlDocument_opentag_def XmlElement_opentag_def
        XmlElement_closetag_def XmlElement_text_def XmlElement_cdata_def
        XmlElement_comment_def XmlDocument_doctype_def addChild_def new_XmlElement_def
        Let_def nth_list_update nth_append less_Suc_eq
      split: list.splits if_splits dest: list.set_sel(2))

lemma parser_write_refs_in_range:
  "parser_write evs st = Inr st' \<Longrightarrow> refs_in_range st \<Longrightarrow> refs_in_range st'"
proof (induction evs arbitrary: st)
  case Nil
  then show ?case by simp
next
  case (Cons pe evs)
  obtain parser ev where pe: "pe = (parser, ev)" by (cases pe)
  from Cons.prems(1) obtain st1 where
    step: "addParserEvents parser ev st = Inr st1" and rest: "parser_write evs st1 = Inr st'"
    by (auto simp: pe split: sum.splits)
  from addParserEvents_refs_in_range[OF step Cons.prems(2)] Cons.IH[OF rest] show ?case
    by simp
qed

lemma new_XmlDocument_refs_in_range:
  assumes "new_XmlDocument sax xml = Inr st"
  shows "refs_in_range st"
proof -
  let ?this = "new_XmlElement \<lparr>tag_name = [], attributes = Map.empty\<rparr> None"
  let ?st0 = "\<lparr>heap = [?this\<lparr>doctype := Some []\<rparr>], delegates = [0]\<rparr>"
  from assms have run: "parser_write (sax (trim xml)) ?st0 = Inr st"
    by (simp add: new_XmlDocument_def Let_def split: if_splits)
  have "refs_in_range ?st0"
    by (simp add: refs_in_range_def new_XmlElement_def)
  with run show ?thesis by (rule parser_write_refs_in_range)
qed

section \<open>The value of an element is the text of its direct children\<close>

lemma spec_direct_text_snoc:
  "spec_direct_text (cs @ [c]) = spec_direct_text cs @ spec_own_text c"
  by (simp add: spec_direct_text_def)

lemma list_all_update:
  "list_all P xs \<Longrightarrow> (i < length xs \<Longrightarrow> P v) \<Longrightarrow> list_all P (xs[i := v])"
proof (induction xs arbitrary: i)
  case Nil
  then show ?case by simp
next
  case (Cons x xs)
  then show ?case by (cases i) auto
qed

lemma list_all_nth: "list_all P xs \<Longrightarrow> i < length xs \<Longrightarrow> P (xs ! i)"
  by (simp add: list_all_length)

lemma val_is_direct_text_new [simp]: "val_is_direct_text (new_XmlElement tag parser)"
  by (simp add: val_is_direct_text_def new_XmlElement_def spec_direct_text_def)

lemma val_is_direct_text_addChild:
  "val e = spec_direct_text (children e) @ spec_own_text c \<Longrightarrow>
   val_is_direct_text (addChild c e)"
  by (simp add: val_is_direct_text_def addChild_def spec_direct_text_snoc)

lemma XmlElement_opentag_inv:
  assumes "list_all val_is_direct_text (heap st)"
  shows "list_all val_is_direct_text (heap (XmlElement_opentag this tag st))"
proof -
  have "val_is_direct_text (addChild (XmlElementRef (length (heap st))) (heap st ! this))"
    if "this < length (heap st)"
    using assms that
    by (intro val_is_direct_text_addChild)
       (simp add: list_all_length val_is_direct_text_def)
  then show ?thesis
    using assms by (simp add: XmlElement_opentag_def Let_def list_all_update)
qed

lemma XmlElement_text_inv:
  assumes "list_all val_is_direct_text (heap st)"
  shows "list_all val_is_direct_text (heap (XmlElement_text this text st))"
proof -
  have "val_is_direct_text
          (addChild (XmlTextNode text) ((heap st ! this)\<lparr>val := val (heap st ! this) @ text\<rparr>))"
    if "this < length (heap st)"
    using assms that
    by (intro val_is_direct_text_addChild)
       (simp add: list_all_length val_is_direct_text_def)
  then show ?thesis
    using assms by (simp add: XmlElement_text_def list_all_update)
qed

lemma XmlElement_cdata_inv:
  assumes "list_all val_is_direct_text (heap st)"
  shows "list_all val_is_direct_text (heap (XmlElement_cdata this cdata st))"
proof -
  have "val_is_direct_text
          (addChild (XmlCDataNode cdata) ((heap st ! this)\<lparr>val := val (heap st ! this) @ cdata\<rparr>))"
    if "this < length (heap st)"
    using assms that
    by (intro val_is_direct_text_addChild)
       (simp add: list_all_length val_is_direct_text_def)
  then show ?thesis
    using assms by (simp add: XmlElement_cdata_def list_all_update)
qed

lemma XmlElement_comment_inv:
  assumes "list_all val_is_direct_text (heap st)"
  shows "list_all val_is_direct_text (heap (XmlElement_comment this comment st))"
proof -
  have "val_is_direct_text (addChild (XmlCommentNode comment) (heap st ! this))"
    if "this < length (heap st)"
    using assms that
    by (intro val_is_direct_text_addChild)
       (simp add: list_all_length val_is_direct_text_def)
  then show ?thesis
    using assms by (simp add: XmlElement_comment_def list_all_update)
qed

lemma XmlDocument_opentag_inv:
  assumes "list_all val_is_direct_text (heap st)"
  shows "list_all val_is_direct_text (heap (XmlDocument_opentag this tag st))"
proof (cases "name (heap st ! this) = []")
  case True
  have "val_is_direct_text ((heap st ! this)\<lparr>name := tag_name tag, attr := attributes tag\<rparr>)"
    if "this < length (heap st)"
    using assms that by (simp add: list_all_length val_is_direct_text_def)
  with True assms show ?thesis
    by (simp add: XmlDocument_opentag_def list_all_update)
next
  case False
  with assms show ?thesis
    by (simp add: XmlDocument_opentag_def XmlElement_opentag_inv)
qed

lemma XmlDocument_doctype_inv:
  assumes "list_all val_is_direct_text (heap st)"
  shows "list_all val_is_direct_text (heap (XmlDocument_doctype this d st))"
proof -
  have "val_is_direct_text
          ((heap st ! this)\<lparr>doctype := map_option (\<lambda>x. x @ d) (doctype (heap st ! this))\<rparr>)"
    if "this < length (heap st)"
    using assms that by (simp add: list_all_length val_is_direct_text_def)
  then show ?thesis
    using assms by (simp add: XmlDocument_doctype_def list_all_update)
qed

lemma addParserEvents_inv:
  assumes "addParserEvents parser ev st = Inr st'"
    and "list_all val_is_direct_text (heap st)"
  shows "list_all val_is_direct_text (heap st')"
  using assms
  by (cases ev)
     (auto simp: XmlElement_closetag_def XmlElement_opentag_inv XmlDocument_opentag_inv
        XmlElement_text_inv XmlElement_cdata_inv XmlElement_comment_inv
        XmlDocument_doctype_inv
      split: list.splits if_splits)

lemma parser_write_inv:
  "parser_write evs st = Inr st' \<Longrightarrow> list_all val_is_direct_text (heap st) \<Longrightarrow>
   list_all val_is_direct_text (heap st')"
proof (induction evs arbitrary: st)
  case Nil
  then show ?case by simp
next
  case (Cons pe evs)
  obtain parser ev where pe: "pe = (parser, ev)" by (cases pe)
  from Cons.prems(1) obtain st1 where
    step: "addParserEvents parser ev st = Inr st1" and rest: "parser_write evs st1 = Inr st'"
    by (auto simp: pe split: sum.splits)
  from addParserEvents_inv[OF step Cons.prems(2)] Cons.IH[OF rest] show ?case by simp
qed

lemma new_XmlDocument_inv:
  assumes "new_XmlDocument sax xml = Inr st"
  shows "list_all val_is_direct_text (heap st)"
proof -
  let ?this = "new_XmlElement \<lparr>tag_name = [], attributes = Map.empty\<rparr> None"
  let ?st0 = "\<lparr>heap = [?this\<lparr>doctype := Some []\<rparr>], delegates = [0]\<rparr>"
  from assms have run: "parser_write (sax (trim xml)) ?st0 = Inr st"
    by (simp add: new_XmlDocument_def Let_def split: if_splits)
  have "list_all val_is_direct_text (heap ?st0)"
    by (simp add: val_is_direct_text_def new_XmlElement_def spec_direct_text_def)
  with run show ?thesis by (rule parser_write_inv)
qed

text \<open>
  Claim C1. In every document the constructor returns, whatever the lexer and the
  input, every element of the store (the document itself and every element ever
  opened) has as its \<open>val\<close> the concatenation, in order and without separator,
  of the contents of the text and CDATA nodes among its own \<open>children\<close>; a
  comment child and an element child (with all the text below it) contribute nothing.
\<close>

theorem val_is_text_of_direct_children:
  "new_XmlDocument sax xml = Inr st \<Longrightarrow> a < length (heap st) \<Longrightarrow>
   val (heap st ! a) = spec_direct_text (children (heap st ! a))"
  using new_XmlDocument_inv[of sax xml st]
  by (simp add: list_all_length val_is_direct_text_def)

theorem val_is_text_of_direct_children_witness:
  "val (heap (projr (new_XmlDocument (\<lambda>_. mixed_events) mixed_xml)) ! 0) = js ''(<world>)''
   \<and> val (heap (projr (new_XmlDocument (\<lambda>_. mixed_events) mixed_xml)) ! 1) = js ''x''"
  using val_is_text_of_direct_children[OF mixed_built, of 0]
    val_is_text_of_direct_children[OF mixed_built, of 1]
  by (simp add: mixed_built spec_direct_text_def js_append)

section \<open>Position fields\<close>

lemma addParserEvents_position_null:
  assumes "addParserEvents parser ev st = Inr st'"
    and "list_all position_null (heap st)"
  shows "list_all position_null (heap st')"
proof -
  have upd: "list_all position_null ((heap st)[d := v])"
    if "position_null (heap st ! d) \<Longrightarrow> position_null v" for d v
    using assms(2) that by (intro list_all_update) (simp_all add: list_all_length)
  have new: "position_null (new_XmlElement tag None)" for tag
    by (simp add: position_null_def new_XmlElement_def)
  have open_tag: "list_all position_null (heap (XmlElement_opentag d tag st))" for d tag
    using new[of tag]
    by (auto simp: XmlElement_opentag_def Let_def position_null_def addChild_def intro!: upd)
  from assms open_tag show ?thesis
    by (cases ev)
       (auto simp: XmlDocument_opentag_def XmlElement_closetag_def XmlElement_text_def
          XmlElement_cdata_def XmlElement_comment_def XmlDocument_doctype_def
          position_null_def addChild_def
        intro!: upd split: list.splits if_splits)
qed

lemma parser_write_position_null:
  "parser_write evs st = Inr st' \<Longrightarrow> list_all position_null (heap st) \<Longrightarrow>
   list_all position_null (heap st')"
proof (induction evs arbitrary: st)
  case Nil
  then show ?case by simp
next
  case (Cons pe evs)
  obtain parser ev where pe: "pe = (parser, ev)" by (cases pe)
  from Cons.prems(1) obtain st1 where
    step: "addParserEvents parser ev st = Inr st1" and rest: "parser_write evs st1 = Inr st'"
    by (auto simp: pe split: sum.splits)
  from addParserEvents_position_null[OF step Cons.prems(2)] Cons.IH[OF rest] show ?case
    by simp
qed

lemma position_fields_always_null:
  assumes "new_XmlDocument sax xml = Inr st"
  shows "list_all position_null (heap st)"
proof -
  let ?this = "new_XmlElement \<lparr>tag_name = [], attributes = Map.empty\<rparr> None"
  let ?st0 = "\<lparr>heap = [?this\<lparr>doctype := Some []\<rparr>], delegates = [0]\<rparr>"
  from assms have run: "parser_write (sax (trim xml)) ?st0 = Inr st"
    by (simp add: new_XmlDocument_def Let_def split: if_splits)
  have "list_all position_null (heap ?st0)"
    by (simp add: position_null_def new_XmlElement_def)
  with run show ?thesis by (rule parser_write_position_null)
qed

text \<open>
  Claim C2 fails on the code. On the document of the test \<open>tag locations\<close> the
  open-tag event of \<open>book\<close> fires with the counters line 0, column 31, position 31
  and startTagPosition 8, and after the build the four position fields of the
  \<open>book\<close> element (address 1), like those of the document (address 0), are null:
  \<open>_opentag\<close> calls the constructor without the parser. By the lemma
  \<open>position_fields_always_null\<close> the same holds of every element of every build.
\<close>

theorem opentag_position_fields_null:
  "books_events ! 1 = (counters 0 31 31 8,
      OnOpenTag \<lparr> tag_name = js ''book'', attributes = [js ''title'' \<mapsto> js ''Twilight''] \<rparr>)
   \<and> map (\<lambda>e. (line e, column e, position e, startTagPosition e))
        (heap (projr (new_XmlDocument (\<lambda>_. books_events) books_xml)))
     = [(None, None, None, None), (None, None, None, None)]"
proof
  show "books_events ! 1 = (counters 0 31 31 8,
      OnOpenTag \<lparr> tag_name = js ''book'', attributes = [js ''title'' \<mapsto> js ''Twilight''] \<rparr>)"
    by (simp add: books_events_def)
  show "map (\<lambda>e. (line e, column e, position e, startTagPosition e))
        (heap (projr (new_XmlDocument (\<lambda>_. books_events) books_xml)))
     = [(None, None, None, None), (None, None, None, None)]"
    by (simp add: books_built)
qed

section \<open>Close events and the construction stack\<close>

lemma closetag_pops: 
  "addParserEvents parser OnCloseTag st = Inr (st\<lparr> delegates := tl (delegates st) \<rparr>)"
  by (simp add: XmlElement_closetag_def split: list.splits)

text \<open>
  Claim C3, as amended. A close event never raises: it removes the head of
  \<open>delegates\<close>, whatever it is, and does nothing once the stack is empty. So
  \<open>k\<close> close events in a row drop the first \<open>k\<close> entries of the stack,
  the document's among them, and return normally, however few opens came before.
\<close>

theorem closetag_never_raises:
  "parser_write (replicate k (parser, OnCloseTag)) st
   = Inr (st\<lparr> delegates := drop k (delegates st) \<rparr>)"
proof (induction k arbitrary: st)
  case 0
  then show ?case by simp
next
  case (Suc k)
  then show ?case by (simp add: closetag_pops drop_Suc del: addParserEvents.simps)
qed

text \<open>
  The claim as stated fails: on one open and two close events the build returns
  the document and no error; and the stack, which holds the document alone after the
  open event of the root, is empty after the root's close event.
\<close>

theorem closetag_counterexample:
  "new_XmlDocument (\<lambda>_. extra_close_events) extra_close_xml
   = Inr \<lparr> heap = [
        \<lparr> name = js ''a'', attr = Map.empty, val = [], children = [],
          firstChild = None, lastChild = None,
          line = None, column = None, position = None, startTagPosition = None,
          doctype = Some [] \<rparr>],
      delegates = [] \<rparr>
   \<and> delegates (projr (new_XmlDocument (\<lambda>_. take 1 extra_close_events) extra_close_xml)) = [0]
   \<and> delegates (projr (new_XmlDocument (\<lambda>_. take 2 extra_close_events) extra_close_xml)) = []"
  by (simp add: builder_eval extra_close_xml_trim extra_close_events_def js_simps)

section \<open>The end of the event stream\<close>

text \<open>
  Claim C4 fails on the code. On the input \<open><a><b>\<close> the lexer fires the open
  events of \<open>a\<close> and \<open>b\<close> and nothing else: the constructor calls
  \<open>parser.write(xml)\<close> and never \<open>parser.close()\<close>, so the lexer is not
  told that the input has ended and reports no unclosed tag. The stream ends with
  \<open>b\<close> on top of the stack and neither element closed, and the constructor
  returns the document with the tree built so far, where its documentation promises an
  error for invalid XML.
\<close>

theorem unclosed_tag_returns_document:
  "new_XmlDocument (\<lambda>_. unclosed_events) unclosed_xml
   = Inr \<lparr> heap = [
        \<lparr> name = js ''a'', attr = Map.empty, val = [], children = [XmlElementRef 1],
          firstChild = Some (XmlElementRef 1), lastChild = Some (XmlElementRef 1),
          line = None, column = None, position = None, startTagPosition = None,
          doctype = Some [] \<rparr>,
        \<lparr> name = js ''b'', attr = Map.empty, val = [], children = [],
          firstChild = None, lastChild = None,
          line = None, column = None, position = None, startTagPosition = None,
          doctype = None \<rparr>],
      delegates = [1, 0] \<rparr>"
  by (simp add: builder_eval unclosed_xml_trim unclosed_events_def js_simps)

text \<open>
  The input of the repository's test \<open>throws on malformed XML\<close> does raise: there
  the lexer meets a close tag that does not match and fires an error event.
\<close>

lemma mismatched_raises:
  "new_XmlDocument (\<lambda>_. mismatched_events) mismatched_xml
   = Inl (SaxError (js ''Unexpected close tag'' @ [0x0A] @ js ''Line: 0'' @ [0x0A]
                    @ js ''Column: 29'' @ [0x0A] @ js ''Char: >''))"
  by (simp add: builder_eval mismatched_xml_trim mismatched_events_def js_simps)

section \<open>Empty input\<close>

lemma addParserEvents_error:
  "addParserEvents parser ev st = Inl e \<Longrightarrow>
   (\<exists>err. ev = OnError err \<and> e = SaxError err \<and> delegates st \<noteq> [])
   \<or> (\<exists>d. ev = OnDoctype d \<and> e = TypeError \<and> delegates st = [])"
  by (cases ev) (auto split: list.splits)

lemma parser_write_error:
  "parser_write evs st = Inl e \<Longrightarrow>
   (\<exists>parser err. (parser, OnError err) \<in> set evs \<and> e = SaxError err)
   \<or> (\<exists>parser d. (parser, OnDoctype d) \<in> set evs \<and> e = TypeError)"
proof (induction evs arbitrary: st)
  case Nil
  then show ?case by simp
next
  case (Cons pe evs)
  obtain parser ev where pe: "pe = (parser, ev)" by (cases pe)
  show ?case
  proof (cases "addParserEvents parser ev st")
    case (Inl e')
    with Cons.prems pe have "e' = e" by simp
    with Inl addParserEvents_error[of parser ev st e] pe show ?thesis by auto
  next
    case (Inr st1)
    with Cons.prems pe have "parser_write evs st1 = Inl e" by simp
    from Cons.IH[OF this] show ?thesis by auto
  qed
qed

text \<open>
  Claim C5. For every lexer and every input, the constructor raises the error
  \<open>No XML to parse!\<close> exactly when the input is empty after trimming. The lexer
  \<open>sax\<close> is arbitrary here, so the error does not depend on anything the lexer
  does: it is raised before the input is handed to it.
\<close>

theorem empty_input_error:
  "(new_XmlDocument sax xml = Inl NoXmlToParse) = (trim xml = [])"
proof (cases "trim xml = []")
  case True
  then show ?thesis by (simp add: new_XmlDocument_def Let_def)
next
  case False
  have "parser_write evs st \<noteq> Inl NoXmlToParse" for evs st
    using parser_write_error[of evs st NoXmlToParse] by auto
  with False show ?thesis by (simp add: new_XmlDocument_def Let_def)
qed

section \<open>Truncation of long content\<close>

lemma length_replace_all: "r \<noteq> [] \<Longrightarrow> length s \<le> length (replace_all c r s)"
proof (induction s)
  case Nil
  then show ?case by (simp add: replace_all_simps)
next
  case (Cons x s)
  from Cons.prems have "1 \<le> length r" by (cases r) simp_all
  with Cons show ?case by (simp add: replace_all_simps)
qed

lemma length_escapeXML: "length v \<le> length (escapeXML v)"
proof -
  have ne: "js ''&amp;'' \<noteq> []" "js ''&lt;'' \<noteq> []" "js ''&gt;'' \<noteq> []"
    "js ''&apos;'' \<noteq> []" "js ''&quot;'' \<noteq> []"
    by (simp_all add: js_simps)
  show ?thesis
    unfolding escapeXML_def
    by (meson ne length_replace_all order_trans)
qed

lemma escapeXML_ampersands: "escapeXML ampersands = js ''&amp;&amp;&amp;&amp;&amp;&amp;''"
  by (simp add: escapeXML_def ampersands_def replace_all_simps js_simps)

text \<open>
  Claim C6 as stated fails: a text node of six ampersands, six code units of raw
  content, is rendered truncated when \<open>trimmed\<close> is on, since its escaped form
  has thirty code units; with \<open>trimmed\<close> off the whole escaped form is rendered.
\<close>

theorem truncation_counterexample:
  "length ampersands = 6
   \<and> XmlTextNode_toString ampersands (Some trimmed_on) = js ''&amp;&amp;&amp;&amp;&amp;'' @ [0x2026]
   \<and> XmlTextNode_toString ampersands (Some (trimmed_on\<lparr> trimmed := False \<rparr>))
       = js ''&amp;&amp;&amp;&amp;&amp;&amp;''"
  by (simp add: XmlTextNode_toString_def escapeXML_def replace_all_simps formatText_def
      Let_def trimmed_on_def trim_def isWhiteSpace_def js_simps ampersands_def)

text \<open>
  Claim C6, as amended. With \<open>trimmed\<close> on, a node is rendered truncated (the
  first 25 code units, trimmed, then the ellipsis, then the whitespace policy) exactly
  when the string handed to \<open>formatText\<close> is longer than 25 code units, and as
  with \<open>trimmed\<close> off otherwise. That string is the entity-escaped content for
  a text or comment node and the raw content for a CDATA node. Escaping never shortens,
  so raw content longer than 25 code units is always truncated.
\<close>

theorem truncation_threshold:
  "(length (escapeXML text) \<le> 25 \<longrightarrow>
      XmlTextNode_toString text (Some (opts\<lparr> trimmed := True \<rparr>))
      = XmlTextNode_toString text (Some (opts\<lparr> trimmed := False \<rparr>)))
   \<and> (25 < length (escapeXML text) \<longrightarrow>
      XmlTextNode_toString text (Some (opts\<lparr> trimmed := True \<rparr>))
      = formatText (trim (take 25 (escapeXML text)) @ [0x2026]) (Some (opts\<lparr> trimmed := False \<rparr>)))
   \<and> (length (escapeXML comment) \<le> 25 \<longrightarrow>
      XmlCommentNode_toString comment (Some (opts\<lparr> trimmed := True \<rparr>))
      = XmlCommentNode_toString comment (Some (opts\<lparr> trimmed := False \<rparr>)))
   \<and> (25 < length (escapeXML comment) \<longrightarrow>
      XmlCommentNode_toString comment (Some (opts\<lparr> trimmed := True \<rparr>))
      = js ''<!--'' @ formatText (trim (take 25 (escapeXML comment)) @ [0x2026])
                        (Some (opts\<lparr> trimmed := False \<rparr>)) @ js ''-->'')
   \<and> (length cdata \<le> 25 \<longrightarrow>
      XmlCDataNode_toString cdata (Some (opts\<lparr> trimmed := True \<rparr>))
      = XmlCDataNode_toString cdata (Some (opts\<lparr> trimmed := False \<rparr>)))
   \<and> (25 < length cdata \<longrightarrow>
      XmlCDataNode_toString cdata (Some (opts\<lparr> trimmed := True \<rparr>))
      = js ''<![CDATA['' @ formatText (trim (take 25 cdata) @ [0x2026])
                        (Some (opts\<lparr> trimmed := False \<rparr>)) @ js '']]>'')
   \<and> length text \<le> length (escapeXML text)"
  by (simp add: XmlTextNode_toString_def XmlCommentNode_toString_def XmlCDataNode_toString_def
      formatText_def length_escapeXML)

theorem truncation_threshold_witness:
  "XmlTextNode_toString ampersands (Some (trimmed_on\<lparr> trimmed := True \<rparr>))
     = formatText (trim (take 25 (escapeXML ampersands)) @ [0x2026])
         (Some (trimmed_on\<lparr> trimmed := False \<rparr>))
   \<and> XmlCommentNode_toString long_comment (Some (trimmed_on\<lparr> trimmed := True \<rparr>))
     = js ''<!--'' @ formatText (trim (take 25 (escapeXML long_comment)) @ [0x2026])
                       (Some (trimmed_on\<lparr> trimmed := False \<rparr>)) @ js ''-->''
   \<and> XmlCDataNode_toString long_cdata (Some (trimmed_on\<lparr> trimmed := True \<rparr>))
     = js ''<![CDATA['' @ formatText (trim (take 25 long_cdata) @ [0x2026])
                       (Some (trimmed_on\<lparr> trimmed := False \<rparr>)) @ js '']]>''
   \<and> XmlTextNode_toString (js ''world'') (Some (trimmed_on\<lparr> trimmed := True \<rparr>))
     = XmlTextNode_toString (js ''world'') (Some (trimmed_on\<lparr> trimmed := False \<rparr>))
   \<and> XmlCommentNode_toString (js ''c'') (Some (trimmed_on\<lparr> trimmed := True \<rparr>))
     = XmlCommentNode_toString (js ''c'') (Some (trimmed_on\<lparr> trimmed := False \<rparr>))
   \<and> XmlCDataNode_toString (js ''<world>'') (Some (trimmed_on\<lparr> trimmed := True \<rparr>))
     = XmlCDataNode_toString (js ''<world>'') (Some (trimmed_on\<lparr> trimmed := False \<rparr>))"
proof -
  have long: "25 < length (escapeXML ampersands)" "25 < length (escapeXML long_comment)"
    "25 < length long_cdata"
    by (simp_all add: escapeXML_def replace_all_simps js_simps ampersands_def
        long_comment_def long_cdata_def)
  have short: "length (escapeXML (js ''world'')) \<le> 25" "length (escapeXML (js ''c'')) \<le> 25"
    "length (js ''<world>'') \<le> 25"
    by (simp_all add: escapeXML_def replace_all_simps js_simps)
  from long short
    truncation_threshold[of ampersands trimmed_on long_comment long_cdata]
    truncation_threshold[of "js ''world''" trimmed_on "js ''c''" "js ''<world>''"]
  show ?thesis by blast
qed

section \<open>Queries on the children\<close>

text \<open>
  Claim C7 fails on the code. In the document whose first \<open>book\<close> has the
  attribute \<open>title\<close> bound to the empty string, \<open>childWithAttribute("title")\<close>
  without a value passes over that first child, which has the key, and returns the second
  \<open>book\<close>: the test is the truth value of \<open>attr[name]\<close>, and the empty
  string is falsy. With the value \<open>""\<close> supplied the first child is returned.
\<close>

theorem childWithAttribute_skips_empty_value:
  "attr (titles_heap ! 1) (js ''title'') = Some []
   \<and> childWithAttribute titles_heap 0 (js ''title'') None = Some 2
   \<and> childWithAttribute titles_heap 0 (js ''title'') (Some []) = Some 1"
  by (simp add: titles_built childWithAttribute_def get_property_def Object_prototype_def
      js_simps)

lemma childrenNamed_loop_filter:
  "map XmlElementRef (childrenNamed_loop h cs nm matches)
   = map XmlElementRef matches
     @ filter (\<lambda>c. case c of XmlElementRef a \<Rightarrow> name (h ! a) = nm | _ \<Rightarrow> False) cs"
  by (induction cs arbitrary: matches) (auto split: XmlNodeBase.splits)

text \<open>
  Claim C8. \<open>childrenNamed(n)\<close> returns, as references in the order of
  \<open>children\<close>, exactly the children that are elements with the name \<open>n\<close>:
  the result is \<open>children\<close> filtered by that test, hence a subsequence of it, and
  empty when nothing matches.
\<close>

theorem childrenNamed_filter:
  "map XmlElementRef (childrenNamed h this nm)
   = filter (\<lambda>c. case c of XmlElementRef a \<Rightarrow> name (h ! a) = nm | _ \<Rightarrow> False)
       (children (h ! this))
   \<and> subseq (map XmlElementRef (childrenNamed h this nm)) (children (h ! this))"
  by (simp add: childrenNamed_def childrenNamed_loop_filter)

section \<open>Path queries\<close>








text \<open>
  Reads of names that \<open>Object.prototype\<close> holds, on elements without an attribute
  of that name: \<open>valueWithPath\<close> returns the inherited object, and
  \<open>childWithAttribute\<close> without a value finds the first element child.
\<close>

lemma inherited_property_reads:
  "valueWithPath martin_heap 0 (js ''author.name@constructor'') = JSObject (js ''constructor'')"
  "valueWithPath martin_heap 0 (js ''author.name@title'') = JSUndefined"
  "childWithAttribute titles_heap 0 (js ''constructor'') None = Some 1"
  by (simp_all add: martin_built titles_built descendantWithPath_def valueWithPath_def
      childNamed_def childWithAttribute_def get_property_def Object_prototype_def js_simps)

section \<open>Iterating over the element children\<close>

lemma eachChild_loop_visit:
  "eachChild_loop iterator array i cs s
   = spec_visit iterator array
       (concat (map (\<lambda>(c, i). case c of XmlElementRef a \<Rightarrow> [(a, i)] | _ \<Rightarrow> [])
                    (zip cs [i..<i + length cs]))) s"
proof (induction cs arbitrary: i s)
  case Nil
  then show ?case by simp
next
  case (Cons c cs)
  have upt: "[i..<i + length (c # cs)] = i # [Suc i..<Suc i + length cs]"
    by (simp add: upt_rec)
  show ?case
    unfolding upt
    by (cases c) (simp_all add: Cons.IH split: prod.splits)
qed

lemma spec_visit_never_false:
  "(\<forall>a i arr s'. fst (iterator a i arr s') \<noteq> JSBoolean False) \<Longrightarrow>
   spec_visit iterator array xs s = fold (\<lambda>(a, i) s'. snd (iterator a i array s')) xs s"
proof (induction xs arbitrary: s)
  case Nil
  then show ?case by simp
next
  case (Cons x xs)
  obtain a i where x: "x = (a, i)" by (cases x)
  obtain r s1 where it: "iterator a i array s = (r, s1)" by (cases "iterator a i array s")
  from Cons.prems it have "r \<noteq> JSBoolean False" by (metis fst_conv)
  with Cons it x show ?case by simp
qed

text \<open>
  Claim C10. \<open>eachChild\<close> does what a visit of the element children does: the
  iterator is called on the children that are elements and on no other child, in the
  order of \<open>children\<close> and with the index the child has in \<open>children\<close>,
  and the iteration ends after the first call that returns the boolean false. With an
  iterator that never returns the boolean false, whatever else it returns, every element
  child is visited.
\<close>

theorem eachChild_visits_elements:
  "eachChild h this iterator s
   = spec_visit iterator (children (h ! this)) (spec_element_children (children (h ! this))) s
   \<and> ((\<forall>a i arr s'. fst (iterator a i arr s') \<noteq> JSBoolean False) \<longrightarrow>
        eachChild h this iterator s
        = fold (\<lambda>(a, i) s'. snd (iterator a i (children (h ! this)) s'))
            (spec_element_children (children (h ! this))) s)"
proof -
  have eq: "eachChild h this iterator s
   = spec_visit iterator (children (h ! this)) (spec_element_children (children (h ! this))) s"
    by (simp add: eachChild_def eachChild_loop_visit spec_element_children_def)
  show ?thesis
    using eq spec_visit_never_false[of iterator] by simp
qed

theorem eachChild_visits_elements_witness:
  "eachChild titles_heap 0 record_index [] = [0, 2]
   \<and> eachChild titles_heap 0 record_index_stop [] = [0]"
proof
  have nf: "\<forall>a i arr s'. fst (record_index a i arr s') \<noteq> JSBoolean False"
    by (simp add: record_index_def)
  from eachChild_visits_elements[of titles_heap 0 record_index "[]"] nf
  have "eachChild titles_heap 0 record_index []
        = fold (\<lambda>(a, i) s'. snd (record_index a i (children (titles_heap ! 0)) s'))
            (spec_element_children (children (titles_heap ! 0))) []"
    by blast
  then show "eachChild titles_heap 0 record_index [] = [0, 2]"
    by (simp add: titles_built spec_element_children_def record_index_def upt_rec)
  from eachChild_visits_elements[of titles_heap 0 record_index_stop "[]"]
  show "eachChild titles_heap 0 record_index_stop [] = [0]"
    by (simp add: titles_built spec_element_children_def record_index_stop_def upt_rec)
qed

end
